theory Spec2Isabelle
  imports Complex_Main "HOL-Library.Multiset"
begin

section \<open>Values and the numpy operations used by the accumulator\<close>

text \<open>
  The module \<^verbatim>\<open>stats_functions.py\<close> computes with Python floats and numpy arrays of
  dtype double. The embedding uses exact real arithmetic in place of floating point, so
  rounding, overflow and integer dtypes are outside the model. A value is a Python float
  or an ndarray, the latter given by its shape and its elements in row-major order.
  Python's \<^verbatim>\<open>None\<close> is the \<open>None\<close> of an option type, and every exception is a
  value of \<open>py_error\<close>.
\<close>

datatype py_error = RuntimeError | ValueError | TypeError | AttributeError | ZeroDivisionError

datatype pyval = PyFloat real | NdArray "nat list" "real list"

text \<open>Number of elements (\<^verbatim>\<open>.size\<close>) of a value; a float counts as one element.\<close>

fun size_of :: "pyval \<Rightarrow> nat" where
  "size_of (PyFloat x) = 1"
| "size_of (NdArray s d) = length d"

text \<open>An ndarray is well formed when it holds as many elements as its shape says.\<close>

fun wf_val :: "pyval \<Rightarrow> bool" where
  "wf_val (PyFloat x) = True"
| "wf_val (NdArray s d) = (length d = prod_list s)"

definition bind_err :: "'e + 'a \<Rightarrow> ('a \<Rightarrow> 'e + 'b) \<Rightarrow> 'e + 'b" where
  "bind_err r f = (case r of Inl e \<Rightarrow> Inl e | Inr x \<Rightarrow> f x)"

definition np_zeros :: "nat list \<Rightarrow> pyval" where
  "np_zeros shp = NdArray shp (replicate (prod_list shp) 0)"

fun np_ravel :: "pyval \<Rightarrow> pyval" where
  "np_ravel (PyFloat x) = NdArray [1] [x]"
| "np_ravel (NdArray s d) = NdArray [length d] d"

text \<open>
  \<^verbatim>\<open>x.reshape(shape)\<close>: a Python float has no such method; an array must keep its
  number of elements.
\<close>

fun np_reshape :: "pyval \<Rightarrow> nat list \<Rightarrow> py_error + pyval" where
  "np_reshape (PyFloat x) shp = Inl AttributeError"
| "np_reshape (NdArray s d) shp =
     (if prod_list shp = length d then Inr (NdArray shp d) else Inl ValueError)"

subsection \<open>Broadcasting\<close>

text \<open>
  numpy aligns two shapes at their last axis; two extents are compatible when they are
  equal or one of them is 1. \<open>bshape_rev\<close> works on the reversed shapes.
\<close>

fun bshape_rev :: "nat list \<Rightarrow> nat list \<Rightarrow> nat list option" where
  "bshape_rev [] ys = Some ys"
| "bshape_rev (x # xs) [] = Some (x # xs)"
| "bshape_rev (x # xs) (y # ys) =
     (if x = y \<or> y = 1 then map_option ((#) x) (bshape_rev xs ys)
      else if x = 1 then map_option ((#) y) (bshape_rev xs ys)
      else None)"

definition broadcast_shapes :: "nat list \<Rightarrow> nat list \<Rightarrow> nat list option" where
  "broadcast_shapes s t = map_option rev (bshape_rev (rev s) (rev t))"

text \<open>
  \<open>bcast s t d\<close> stretches the data \<open>d\<close> of shape \<open>s\<close> to the shape \<open>t\<close> of the same
  rank: an axis of equal extent is traversed block by block, an axis of extent 1 is
  repeated.
\<close>

fun bcast :: "nat list \<Rightarrow> nat list \<Rightarrow> real list \<Rightarrow> real list" where
  "bcast (a # as) (b # bs) d =
     (if a = b
      then concat (map (\<lambda>i. bcast as bs (take (prod_list as) (drop (i * prod_list as) d))) [0..<a])
      else concat (replicate b (bcast as bs d)))"
| "bcast s t d = d"

definition broadcast_to :: "nat list \<Rightarrow> real list \<Rightarrow> nat list \<Rightarrow> real list" where
  "broadcast_to s d t =
     (if s = t then d else bcast (replicate (length t - length s) 1 @ s) t d)"

fun np_binop :: "(real \<Rightarrow> real \<Rightarrow> real) \<Rightarrow> pyval \<Rightarrow> pyval \<Rightarrow> py_error + pyval" where
  "np_binop f (PyFloat a) (PyFloat b) = Inr (PyFloat (f a b))"
| "np_binop f (PyFloat a) (NdArray t e) = Inr (NdArray t (map (f a) e))"
| "np_binop f (NdArray s d) (PyFloat b) = Inr (NdArray s (map (\<lambda>x. f x b) d))"
| "np_binop f (NdArray s d) (NdArray t e) =
     (case broadcast_shapes s t of
        None \<Rightarrow> Inl ValueError
      | Some u \<Rightarrow> Inr (NdArray u (map2 f (broadcast_to s d u) (broadcast_to t e u))))"

definition np_sub :: "pyval \<Rightarrow> pyval \<Rightarrow> py_error + pyval" where
  "np_sub = np_binop (\<lambda>x y. x - y)"

definition np_mul :: "pyval \<Rightarrow> pyval \<Rightarrow> py_error + pyval" where
  "np_mul = np_binop (\<lambda>x y. x * y)"

text \<open>Multiplying and dividing a value by a Python number.\<close>

fun np_scale :: "real \<Rightarrow> pyval \<Rightarrow> pyval" where
  "np_scale c (PyFloat x) = PyFloat (c * x)"
| "np_scale c (NdArray s d) = NdArray s (map (\<lambda>x. c * x) d)"

fun np_div_scalar :: "pyval \<Rightarrow> real \<Rightarrow> pyval" where
  "np_div_scalar (PyFloat x) c = PyFloat (x / c)"
| "np_div_scalar (NdArray s d) c = NdArray s (map (\<lambda>x. x / c) d)"

text \<open>
  The augmented assignment \<^verbatim>\<open>x += y\<close>. On a Python float it rebinds the name to
  \<^verbatim>\<open>x + y\<close>; on an ndarray it works in place, and numpy refuses a right-hand side
  whose broadcast shape is not the shape of \<open>x\<close>.
\<close>

fun np_iadd :: "pyval \<Rightarrow> pyval \<Rightarrow> py_error + pyval" where
  "np_iadd (PyFloat a) y = np_binop (\<lambda>x y. x + y) (PyFloat a) y"
| "np_iadd (NdArray s d) (PyFloat b) = Inr (NdArray s (map (\<lambda>x. x + b) d))"
| "np_iadd (NdArray s d) (NdArray t e) =
     (if broadcast_shapes s t = Some s
      then Inr (NdArray s (map2 (\<lambda>x y. x + y) d (broadcast_to t e s)))
      else Inl ValueError)"

fun elems :: "pyval \<Rightarrow> real list" where
  "elems (PyFloat x) = [x]"
| "elems (NdArray s d) = d"

text \<open>\<^verbatim>\<open>np.outer(a, b)\<close> flattens both arguments.\<close>

definition outer_data :: "real list \<Rightarrow> real list \<Rightarrow> real list" where
  "outer_data xs ys = concat (map (\<lambda>x. map (\<lambda>y. x * y) ys) xs)"

definition np_outer :: "pyval \<Rightarrow> pyval \<Rightarrow> pyval" where
  "np_outer a b = NdArray [length (elems a), length (elems b)] (outer_data (elems a) (elems b))"

text \<open>
  \<^verbatim>\<open>np.diag\<close>: the diagonal of a matrix, the diagonal matrix of a vector, and a
  \<^verbatim>\<open>ValueError\<close> for every other rank (also for a number and for \<^verbatim>\<open>None\<close>).
\<close>

fun np_diag :: "pyval option \<Rightarrow> py_error + pyval" where
  "np_diag (Some (NdArray [r, c] d)) =
     Inr (NdArray [min r c] (map (\<lambda>i. d ! (i * c + i)) [0..<min r c]))"
| "np_diag (Some (NdArray [n] d)) =
     Inr (NdArray [n, n]
       (concat (map (\<lambda>i. map (\<lambda>j. if i = j then d ! i else 0) [0..<n]) [0..<n])))"
| "np_diag v = Inl ValueError"

section \<open>StatisticsAccumulator\<close>

text \<open>
  The fields of the class. \<open>count\<close> starts at 0 and is only ever incremented, so it
  is a natural number; \<open>ddof\<close> is whatever integer the caller passed. \<open>acc_mean\<close> and
  \<open>acc_M2\<close> are the private attributes \<^verbatim>\<open>_mean\<close> and \<^verbatim>\<open>_M2\<close>.
\<close>

record accumulator =
  count :: nat
  ddof :: int
  ret_cov :: bool
  shape :: "nat list option"
  acc_mean :: "pyval option"
  acc_M2 :: "pyval option"

text \<open>
  The constructor. \<^verbatim>\<open>np.prod(shape)\<close> is the product of the dimensions, 1 for the
  empty tuple.
\<close>

definition init :: "int \<Rightarrow> nat list option \<Rightarrow> bool \<Rightarrow> accumulator" where
  "init dd shp rc =
     (case shp of
        None \<Rightarrow> \<lparr>count = 0, ddof = dd, ret_cov = rc, shape = None,
                  acc_mean = None, acc_M2 = None\<rparr>
      | Some s \<Rightarrow>
          (let size = prod_list s in
           \<lparr>count = 0, ddof = dd, ret_cov = rc, shape = Some s,
            acc_mean = Some (np_zeros [size]),
            acc_M2 = Some (if rc then np_zeros [size, size] else np_zeros [size])\<rparr>))"

definition mean :: "accumulator \<Rightarrow> py_error + pyval option" where
  "mean a =
     (case shape a of
        None \<Rightarrow> Inr (acc_mean a)
      | Some s \<Rightarrow>
          (case acc_mean a of
             None \<Rightarrow> Inl AttributeError
           | Some m \<Rightarrow> bind_err (np_reshape m s) (\<lambda>r. Inr (Some r))))"

definition cov :: "accumulator \<Rightarrow> py_error + pyval" where
  "cov a =
     (if int (count a) \<le> ddof a then Inl RuntimeError
      else if \<not> ret_cov a then Inl ValueError
      else (case acc_M2 a of
              None \<Rightarrow> Inl TypeError
            | Some m \<Rightarrow> Inr (np_div_scalar m (real_of_int (int (count a) - ddof a)))))"

definition var :: "accumulator \<Rightarrow> py_error + pyval" where
  "var a =
     (if int (count a) \<le> ddof a then Inl RuntimeError
      else bind_err
        (if ret_cov a
         then bind_err (np_diag (acc_M2 a))
                (\<lambda>dg. Inr (np_div_scalar dg (real_of_int (int (count a) - ddof a))))
         else (case acc_M2 a of
                 None \<Rightarrow> Inl TypeError
               | Some m \<Rightarrow> Inr (np_div_scalar m (real_of_int (int (count a) - ddof a)))))
        (\<lambda>v. case shape a of None \<Rightarrow> Inr v | Some s \<Rightarrow> np_reshape v s))"

text \<open>
  \<^verbatim>\<open>_initialize\<close>: a value with \<^verbatim>\<open>__iter__\<close> (an array) fixes the shape and is
  stored flattened; any other value is stored as it is, with \<^verbatim>\<open>_M2 = 0\<close> whatever
  \<^verbatim>\<open>ret_cov\<close> says. The source stores \<^verbatim>\<open>np.ravel(value)\<close>, not the array
  \<^verbatim>\<open>value_arr\<close> it converted to \<^verbatim>\<open>dtype\<close>; every value of the model is of dtype
  double, where the two hold the same numbers.
\<close>

definition initialize :: "accumulator \<Rightarrow> pyval \<Rightarrow> accumulator" where
  "initialize a v =
     (case v of
        NdArray s d \<Rightarrow>
          (let size = prod_list s in
           a\<lparr>count := 1, shape := Some s, acc_mean := Some (np_ravel v),
             acc_M2 := Some (if ret_cov a then np_zeros [size, size] else np_zeros [size])\<rparr>)
      | PyFloat x \<Rightarrow>
          a\<lparr>count := 1, shape := None, acc_mean := Some v, acc_M2 := Some (PyFloat 0)\<rparr>)"

text \<open>
  \<^verbatim>\<open>add\<close> returns the exception it raised, if any, and the accumulator as the call
  left it. The statements run in the order of the source, so an exception leaves behind
  every assignment made before it.
\<close>

definition add :: "accumulator \<Rightarrow> pyval \<Rightarrow> py_error option \<times> accumulator" where
  "add a v0 =
     (case acc_mean a of
        None \<Rightarrow> (None, initialize a v0)
      | Some mean0 \<Rightarrow>
          (let v = (if shape a \<noteq> None then np_ravel v0 else v0);
               a1 = a\<lparr>count := count a + 1\<rparr>;
               n = real (count a1)
           in case np_sub v mean0 of
                Inl e \<Rightarrow> (Some e, a1)
              | Inr delta \<Rightarrow>
                  (case np_iadd mean0 (np_div_scalar delta n) of
                     Inl e \<Rightarrow> (Some e, a1)
                   | Inr mean1 \<Rightarrow>
                       (let a2 = a1\<lparr>acc_mean := Some mean1\<rparr>;
                            inc = (if ret_cov a
                                   then (case acc_M2 a of
                                           None \<Rightarrow> Inl TypeError
                                         | Some m2 \<Rightarrow>
                                             np_sub (np_scale (n - 1) (np_outer delta delta))
                                                    (np_div_scalar m2 n))
                                   else bind_err (np_sub v mean1) (np_mul delta))
                        in case inc of
                             Inl e \<Rightarrow> (Some e, a2)
                           | Inr i \<Rightarrow>
                               (case acc_M2 a of
                                  None \<Rightarrow> (Some TypeError, a2)
                                | Some m2 \<Rightarrow>
                                    (case np_iadd m2 i of
                                       Inl e \<Rightarrow> (Some e, a2)
                                     | Inr m2' \<Rightarrow> (None, a2\<lparr>acc_M2 := Some m2'\<rparr>)))))))"

text \<open>\<^verbatim>\<open>add_many\<close>: the loop stops at the first exception.\<close>

fun add_many :: "accumulator \<Rightarrow> pyval list \<Rightarrow> py_error option \<times> accumulator" where
  "add_many a [] = (None, a)"
| "add_many a (v # vs) =
     (case add a v of
        (Some e, a') \<Rightarrow> (Some e, a')
      | (None, a') \<Rightarrow> add_many a' vs)"

text \<open>
  \<open>run_adds\<close> is a caller that keeps calling \<^verbatim>\<open>add\<close> whatever happened before, also
  after a call that raised.
\<close>

definition run_adds :: "accumulator \<Rightarrow> pyval list \<Rightarrow> accumulator" where
  "run_adds a vs = foldl (\<lambda>acc v. snd (add acc v)) a vs"

text \<open>
  The accumulators that hold array data in the layout the constructor (given a shape)
  and \<^verbatim>\<open>_initialize\<close> (given an array) set up: the mean flattened to \<open>size\<close>
  elements, and \<^verbatim>\<open>_M2\<close> a vector of \<open>size\<close> elements or a \<open>size \<times> size\<close> matrix.
\<close>

definition acc_size :: "accumulator \<Rightarrow> nat" where
  "acc_size a = (case shape a of None \<Rightarrow> 1 | Some shp \<Rightarrow> prod_list shp)"

definition shaped_state :: "accumulator \<Rightarrow> bool" where
  "shaped_state a =
     (case shape a of
        None \<Rightarrow> False
      | Some shp \<Rightarrow>
          (case acc_mean a of
             Some (NdArray ms md) \<Rightarrow>
               ms = [prod_list shp] \<and> length md = prod_list shp \<and>
               (case acc_M2 a of
                  Some (NdArray qs qd) \<Rightarrow>
                    (if ret_cov a
                     then qs = [prod_list shp, prod_list shp] \<and>
                          length qd = prod_list shp * prod_list shp
                     else qs = [prod_list shp] \<and> length qd = prod_list shp)
                | _ \<Rightarrow> False)
           | _ \<Rightarrow> False))"

section \<open>Results that may be infinite or not a number\<close>

text \<open>
  numpy does not raise on a square root of a negative number, a logarithm of zero or a
  division by zero: it returns \<^verbatim>\<open>nan\<close> or an infinity (and warns). The functions
  below return such results to the caller, so their results are of type \<open>npfloat\<close>.
\<close>

datatype npfloat = Finite real | PosInf | NegInf | NaN

datatype outval = OutFloat npfloat | OutArray "nat list" "npfloat list"

fun to_out :: "pyval \<Rightarrow> outval" where
  "to_out (PyFloat x) = OutFloat (Finite x)"
| "to_out (NdArray s d) = OutArray s (map Finite d)"

definition sqrt_elem :: "real \<Rightarrow> npfloat" where
  "sqrt_elem x = (if x < 0 then NaN else Finite (sqrt x))"

fun np_sqrt :: "pyval \<Rightarrow> outval" where
  "np_sqrt (PyFloat x) = OutFloat (sqrt_elem x)"
| "np_sqrt (NdArray s d) = OutArray s (map sqrt_elem d)"

fun np_sqrt_f :: "npfloat \<Rightarrow> npfloat" where
  "np_sqrt_f (Finite x) = sqrt_elem x"
| "np_sqrt_f PosInf = PosInf"
| "np_sqrt_f NegInf = NaN"
| "np_sqrt_f NaN = NaN"

fun np_log_f :: "npfloat \<Rightarrow> npfloat" where
  "np_log_f (Finite x) = (if x < 0 then NaN else if x = 0 then NegInf else Finite (ln x))"
| "np_log_f PosInf = PosInf"
| "np_log_f NegInf = NaN"
| "np_log_f NaN = NaN"

text \<open>A Python number divided by a numpy float.\<close>

fun np_div_f :: "real \<Rightarrow> npfloat \<Rightarrow> npfloat" where
  "np_div_f a (Finite b) =
     (if b = 0 then (if a = 0 then NaN else if 0 < a then PosInf else NegInf)
      else Finite (a / b))"
| "np_div_f a PosInf = Finite 0"
| "np_div_f a NegInf = Finite 0"
| "np_div_f a NaN = NaN"

section \<open>The property \<^verbatim>\<open>std\<close> and \<^verbatim>\<open>mean_std_online\<close>\<close>

definition std :: "accumulator \<Rightarrow> py_error + outval" where
  "std a = bind_err (var a) (\<lambda>v. Inr (np_sqrt v))"

text \<open>
  \<^verbatim>\<open>mean_std_online\<close> builds an accumulator without covariances, feeds it the data
  and reads the mean and the standard deviation. Its \<^verbatim>\<open>except\<close> clause catches
  \<^verbatim>\<open>ValueError\<close> and nothing else.
\<close>

definition mean_std_online ::
  "pyval list \<Rightarrow> int \<Rightarrow> nat list option \<Rightarrow> py_error + (outval \<times> outval)" where
  "mean_std_online arr dd shp =
     (case add_many (init dd shp False) arr of
        (Some e, acc) \<Rightarrow> Inl e
      | (None, acc) \<Rightarrow>
          bind_err (mean acc) (\<lambda>mo.
            let mean_out = (case mo of None \<Rightarrow> OutFloat NaN | Some m \<Rightarrow> to_out m)
            in case std acc of
                 Inl ValueError \<Rightarrow> Inr (mean_out, OutFloat NaN)
               | Inl e \<Rightarrow> Inl e
               | Inr s \<Rightarrow> Inr (mean_out, s)))"

section \<open>\<^verbatim>\<open>lognorm_mean_var_to_mu_sigma\<close>\<close>

text \<open>
  The arguments are Python floats. \<^verbatim>\<open>mu\<close> is a quotient by a numpy float and never
  raises; \<^verbatim>\<open>variance/mean2\<close> is a quotient of Python floats and raises
  \<^verbatim>\<open>ZeroDivisionError\<close> when \<^verbatim>\<open>mean2\<close> is zero, before the name of the definition is
  looked at.
\<close>

definition lognorm_mean_var_to_mu_sigma ::
  "real \<Rightarrow> real \<Rightarrow> string \<Rightarrow> py_error + (npfloat \<times> npfloat)" where
  "lognorm_mean_var_to_mu_sigma mean_v variance defn =
     (let mean2 = mean_v\<^sup>2;
          mu = np_div_f mean2 (np_sqrt_f (Finite (mean2 + variance)))
      in if mean2 = 0 then Inl ZeroDivisionError
         else
           (let sigma = np_sqrt_f (np_log_f (Finite (1 + variance / mean2)))
            in if defn = ''scipy'' then Inr (mu, sigma)
               else if defn = ''numpy'' then Inr (np_log_f mu, sigma)
               else Inl ValueError))"

section \<open>\<^verbatim>\<open>sampling_distribution_cv\<close>\<close>

text \<open>
  Python's \<^verbatim>\<open>range(start, stop, step)\<close> for a positive step, the only kind the module
  uses.
\<close>

function py_range :: "int \<Rightarrow> int \<Rightarrow> int \<Rightarrow> int list" where
  "py_range i stop step = (if 0 < step \<and> i < stop then i # py_range (i + step) stop step else [])"
  by pat_completeness auto
termination
  by (relation "measure (\<lambda>(i, stop, step). nat (stop - i))") auto

declare py_range.simps [simp del]

text \<open>
  scipy's \<^verbatim>\<open>special.gamma\<close> and \<^verbatim>\<open>misc.factorial\<close> are parameters of the model. The
  summand and the factors after the sum are written over the reals, for finite results
  of the two library functions.
\<close>

definition cv_term ::
  "(real \<Rightarrow> real) \<Rightarrow> (int \<Rightarrow> real) \<Rightarrow> real \<Rightarrow> real \<Rightarrow> int \<Rightarrow> int \<Rightarrow> real" where
  "cv_term gamma factorial x2 cv num i =
     factorial (num - 1) * gamma (0.5 * real_of_int (num - i))
       * real_of_int num powr (0.5 * real_of_int i)
     / (factorial (num - 1 - i) * factorial i * 2 powr (0.5 * real_of_int i) * cv powi i
        * (1 + x2) powr (0.5 * real_of_int i))"

definition cv_series ::
  "(real \<Rightarrow> real) \<Rightarrow> (int \<Rightarrow> real) \<Rightarrow> real \<Rightarrow> real \<Rightarrow> int \<Rightarrow> real" where
  "cv_series gamma factorial x2 cv num =
     sum_list (map (cv_term gamma factorial x2 cv num) (py_range (1 - num mod 2) num 2))"

definition sampling_distribution_cv ::
  "(real \<Rightarrow> real) \<Rightarrow> (int \<Rightarrow> real) \<Rightarrow> real \<Rightarrow> real \<Rightarrow> int \<Rightarrow> py_error + real" where
  "sampling_distribution_cv gamma factorial x cv num =
     (if x < 0 then Inr 0
      else
        (let x2 = x * x;
             res = cv_series gamma factorial x2 cv num;
             res = res * (2 / (sqrt pi * gamma (0.5 * real_of_int (num - 1))))
         in if x = 0 \<and> num < 2 then Inl ZeroDivisionError
            else
              (let res = res * (x powi (num - 2) / (1 + x2) powr (0.5 * real_of_int num))
               in if cv = 0 then Inl ZeroDivisionError
                  else Inr (res * exp (- 0.5 * real_of_int num / cv\<^sup>2 * x2 / (1 + x2))))))"

section \<open>Batch formulas\<close>

text \<open>
  The offline formulas the accumulator is compared with: the arithmetic mean and the
  population variance of a list of samples.
\<close>

definition batch_mean :: "real list \<Rightarrow> real" where
  "batch_mean xs = sum_list xs / real (length xs)"

definition sum_sq_dev :: "real list \<Rightarrow> real" where
  "sum_sq_dev xs = (\<Sum>x\<leftarrow>xs. (x - batch_mean xs)\<^sup>2)"

definition batch_var :: "real list \<Rightarrow> real" where
  "batch_var xs = sum_sq_dev xs / real (length xs)"

text \<open>
  The accumulator after the scalar samples \<open>xs\<close> were added, one call of
  \<^verbatim>\<open>add\<close> each, to \<^verbatim>\<open>StatisticsAccumulator()\<close> (\<^verbatim>\<open>ddof = 0\<close>, no shape,
  no covariance).
\<close>

definition feed_scalars :: "real list \<Rightarrow> py_error option \<times> accumulator" where
  "feed_scalars xs = add_many (init 0 None False) (map PyFloat xs)"

text \<open>
  The state of a scalar accumulator that holds exactly the statistics of the samples
  \<open>ys\<close>.
\<close>

definition scalar_state :: "accumulator \<Rightarrow> int \<Rightarrow> real list \<Rightarrow> bool" where
  "scalar_state a dd ys \<longleftrightarrow>
     ys \<noteq> [] \<and> count a = length ys \<and> ddof a = dd \<and> shape a = None \<and> \<not> ret_cov a \<and>
     acc_mean a = Some (PyFloat (batch_mean ys)) \<and>
     acc_M2 a = Some (PyFloat (sum_sq_dev ys))"

text \<open>
  The covariance update as the specification words it,
  \<^verbatim>\<open>M2 += (count - 1) * outer(delta, delta) / count - M2 / count\<close>, to be compared with
  the update that \<^verbatim>\<open>add\<close> performs.
\<close>

definition spec_cov_update :: "nat \<Rightarrow> pyval \<Rightarrow> pyval \<Rightarrow> py_error + pyval" where
  "spec_cov_update n delta m2 =
     bind_err
       (np_sub (np_div_scalar (np_scale (real n - 1) (np_outer delta delta)) (real n))
               (np_div_scalar m2 (real n)))
       (np_iadd m2)"

section \<open>Welford's update on scalar samples\<close>

lemma dev_sq_expand:
  "(\<Sum>y\<leftarrow>ys. (y - c)\<^sup>2) = (\<Sum>y\<leftarrow>ys. y\<^sup>2) - 2 * c * sum_list ys + real (length ys) * c\<^sup>2"
  by (induction ys) (simp_all add: power2_eq_square algebra_simps)

lemma sum_sq_dev_alt:
  assumes "ys \<noteq> []"
  shows "sum_sq_dev ys = (\<Sum>y\<leftarrow>ys. y\<^sup>2) - (sum_list ys)\<^sup>2 / real (length ys)"
proof -
  have n: "real (length ys) \<noteq> 0" using assms by simp
  show ?thesis
    unfolding sum_sq_dev_def batch_mean_def dev_sq_expand
    using n by (simp add: power2_eq_square field_simps)
qed

lemma welford_algebra:
  fixes s q x N :: real
  assumes "0 < N"
  shows "q - s\<^sup>2 / N + (x - s / N) * (x - (s / N + (x - s / N) / (N + 1)))
       = (q + x\<^sup>2) - (s + x)\<^sup>2 / (N + 1)"
proof -
  have "N \<noteq> 0" "N + 1 \<noteq> 0" using assms by simp_all
  then show ?thesis
    by (simp add: power2_eq_square divide_simps) (simp add: algebra_simps)
qed

lemma mean_algebra:
  fixes s x N :: real
  assumes "0 < N"
  shows "s / N + (x - s / N) / (N + 1) = (s + x) / (N + 1)"
proof -
  have "N \<noteq> 0" "N + 1 \<noteq> 0" using assms by simp_all
  then show ?thesis
    by (simp add: divide_simps) (simp add: algebra_simps)
qed

lemma add_scalar_step:
  assumes "scalar_state a dd ys"
  shows "fst (add a (PyFloat x)) = None \<and> scalar_state (snd (add a (PyFloat x))) dd (ys @ [x])"
proof -
  have ne: "ys \<noteq> []" and c: "count a = length ys" and sh: "shape a = None"
    and rc: "\<not> ret_cov a" and m: "acc_mean a = Some (PyFloat (batch_mean ys))"
    and m2: "acc_M2 a = Some (PyFloat (sum_sq_dev ys))" and dd: "ddof a = dd"
    using assms by (simp_all add: scalar_state_def)
  let ?n = "length ys"
  let ?mu = "batch_mean ys"
  let ?mu' = "?mu + (x - ?mu) / real (Suc ?n)"
  have eq: "add a (PyFloat x) =
      (None, a\<lparr>count := Suc ?n, acc_mean := Some (PyFloat ?mu'),
               acc_M2 := Some (PyFloat (sum_sq_dev ys + (x - ?mu) * (x - ?mu')))\<rparr>)"
    by (simp add: add_def c sh rc m m2 np_sub_def np_mul_def bind_err_def Let_def)
  have rpos: "0 < real ?n" using ne by simp
  have mean': "?mu' = batch_mean (ys @ [x])"
    using mean_algebra[OF rpos, of "sum_list ys" x]
    by (simp add: batch_mean_def add.commute)
  have "sum_sq_dev ys + (x - ?mu) * (x - ?mu') = sum_sq_dev (ys @ [x])"
    using welford_algebra[OF rpos, of "\<Sum>y\<leftarrow>ys. y\<^sup>2" "sum_list ys" x]
    by (simp add: sum_sq_dev_alt ne batch_mean_def add.commute)
  with mean' eq show ?thesis
    by (simp add: scalar_state_def sh rc dd)
qed

lemma add_many_scalar:
  "scalar_state a dd ys \<Longrightarrow>
   fst (add_many a (map PyFloat xs)) = None \<and>
   scalar_state (snd (add_many a (map PyFloat xs))) dd (ys @ xs)"
proof (induction xs arbitrary: a ys)
  case Nil
  then show ?case by simp
next
  case (Cons x xs)
  from add_scalar_step[OF Cons.prems, of x]
  obtain a' where a': "add a (PyFloat x) = (None, a')" and st: "scalar_state a' dd (ys @ [x])"
    by (cases "add a (PyFloat x)") auto
  from Cons.IH[OF st] a' show ?case by simp
qed

lemma add_first_scalar:
  "fst (add (init dd None False) (PyFloat x)) = None \<and>
   scalar_state (snd (add (init dd None False) (PyFloat x))) dd [x]"
  by (simp add: add_def init_def initialize_def scalar_state_def batch_mean_def sum_sq_dev_def)

lemma feed_scalars_state:
  assumes "xs \<noteq> []"
  shows "fst (feed_scalars xs) = None \<and> scalar_state (snd (feed_scalars xs)) 0 xs"
proof -
  obtain x xs' where xs: "xs = x # xs'" using assms by (cases xs) auto
  from add_first_scalar[of 0 x]
  obtain a' where a': "add (init 0 None False) (PyFloat x) = (None, a')"
    and st: "scalar_state a' 0 [x]"
    by (cases "add (init 0 None False) (PyFloat x)") auto
  from add_many_scalar[OF st, of xs'] a' show ?thesis
    by (simp add: feed_scalars_def xs)
qed

lemma scalar_state_mean:
  "scalar_state a dd ys \<Longrightarrow> mean a = Inr (Some (PyFloat (batch_mean ys)))"
  by (simp add: scalar_state_def mean_def)

lemma scalar_state_var:
  "scalar_state a 0 ys \<Longrightarrow> var a = Inr (PyFloat (batch_var ys))"
  by (simp add: scalar_state_def var_def bind_err_def batch_var_def)

lemma batch_mean_mset: "mset ys = mset xs \<Longrightarrow> batch_mean ys = batch_mean xs"
  by (metis batch_mean_def mset_eq_length sum_mset_sum_list)

lemma sum_sq_dev_mset:
  assumes "mset ys = mset xs"
  shows "sum_sq_dev ys = sum_sq_dev xs"
proof -
  have "mset (map (\<lambda>x. (x - batch_mean xs)\<^sup>2) ys) = mset (map (\<lambda>x. (x - batch_mean xs)\<^sup>2) xs)"
    using assms by simp
  then have "sum_list (map (\<lambda>x. (x - batch_mean xs)\<^sup>2) ys)
           = sum_list (map (\<lambda>x. (x - batch_mean xs)\<^sup>2) xs)"
    by (metis sum_mset_sum_list)
  then show ?thesis
    by (simp add: sum_sq_dev_def batch_mean_mset[OF assms])
qed

lemma batch_var_mset:
  assumes "mset ys = mset xs"
  shows "batch_var ys = batch_var xs"
  unfolding batch_var_def sum_sq_dev_mset[OF assms] mset_eq_length[OF assms] by (rule refl)

text \<open>
  On an accumulator that does not track covariances (\<^verbatim>\<open>StatisticsAccumulator()\<close>):
  for every finite non-empty sequence of scalar samples added one by one, no call fails,
  the final mean is the sum of the samples divided by their number, and the variance
  with \<^verbatim>\<open>ddof = 0\<close> is the population variance of the batch formula, in exact
  arithmetic. Hence every permutation of the samples gives the same final mean and
  variance.
\<close>

theorem accumulator_matches_batch:
  assumes "xs \<noteq> []"
  shows "fst (feed_scalars xs) = None \<and>
         count (snd (feed_scalars xs)) = length xs \<and>
         mean (snd (feed_scalars xs)) = Inr (Some (PyFloat (sum_list xs / real (length xs)))) \<and>
         var (snd (feed_scalars xs)) =
           Inr (PyFloat ((\<Sum>x\<leftarrow>xs. (x - sum_list xs / real (length xs))\<^sup>2) / real (length xs))) \<and>
         (\<forall>ys. mset ys = mset xs \<longrightarrow>
            mean (snd (feed_scalars ys)) = mean (snd (feed_scalars xs)) \<and>
            var (snd (feed_scalars ys)) = var (snd (feed_scalars xs)))"
proof -
  note st = feed_scalars_state[OF assms]
  have m: "mean (snd (feed_scalars xs)) = Inr (Some (PyFloat (batch_mean xs)))"
    using st scalar_state_mean by blast
  have v: "var (snd (feed_scalars xs)) = Inr (PyFloat (batch_var xs))"
    using st scalar_state_var by blast
  have c: "count (snd (feed_scalars xs)) = length xs"
    using st by (simp add: scalar_state_def)
  have perm: "mean (snd (feed_scalars ys)) = mean (snd (feed_scalars xs)) \<and>
              var (snd (feed_scalars ys)) = var (snd (feed_scalars xs))"
    if eq: "mset ys = mset xs" for ys
  proof -
    have "ys \<noteq> []" using eq assms by auto
    note st' = feed_scalars_state[OF this]
    have "mean (snd (feed_scalars ys)) = Inr (Some (PyFloat (batch_mean ys)))"
      using st' scalar_state_mean by blast
    moreover have "var (snd (feed_scalars ys)) = Inr (PyFloat (batch_var ys))"
      using st' scalar_state_var by blast
    ultimately show ?thesis
      unfolding m v batch_mean_mset[OF eq] batch_var_mset[OF eq] by simp
  qed
  have m': "mean (snd (feed_scalars xs)) = Inr (Some (PyFloat (sum_list xs / real (length xs))))"
    using m by (simp add: batch_mean_def)
  have v': "var (snd (feed_scalars xs)) =
      Inr (PyFloat ((\<Sum>x\<leftarrow>xs. (x - sum_list xs / real (length xs))\<^sup>2) / real (length xs)))"
    using v by (simp add: batch_mean_def batch_var_def sum_sq_dev_def)
  from st have "fst (feed_scalars xs) = None" by simp
  with c m' v' perm show ?thesis by blast
qed

theorem accumulator_matches_batch_witness:
  "fst (feed_scalars [1, 2, 4]) = None \<and>
   mean (snd (feed_scalars [1, 2, 4])) = Inr (Some (PyFloat (7 / 3))) \<and>
   var (snd (feed_scalars [1, 2, 4])) = Inr (PyFloat (14 / 9)) \<and>
   mean (snd (feed_scalars [4, 1, 2])) = Inr (Some (PyFloat (7 / 3))) \<and>
   var (snd (feed_scalars [4, 1, 2])) = Inr (PyFloat (14 / 9))"
proof -
  have ne: "[1, 2, 4] \<noteq> ([] :: real list)" by simp
  note main = accumulator_matches_batch[OF ne]
  have p: "mset [4, 1, 2] = mset [1, 2, (4 :: real)]" by simp
  have m: "mean (snd (feed_scalars [1, 2, 4])) = Inr (Some (PyFloat (7 / 3)))"
    using main by simp
  have v: "var (snd (feed_scalars [1, 2, 4])) = Inr (PyFloat (14 / 9))"
    using main by (simp add: power2_eq_square)
  from main p have q: "mean (snd (feed_scalars [4, 1, 2])) = mean (snd (feed_scalars [1, 2, 4])) \<and>
                    var (snd (feed_scalars [4, 1, 2])) = var (snd (feed_scalars [1, 2, 4]))"
    by blast
  from main have "fst (feed_scalars [1, 2, 4]) = None" by blast
  with q m v show ?thesis by simp
qed

text \<open>
  C1. The statement is about every accumulator, and an accumulator may track
  covariances. There it fails: after the scalar samples 1 and 2 were added to
  \<^verbatim>\<open>StatisticsAccumulator(ret_cov=True)\<close> the mean is \<open>3/2\<close>, as the batch formula
  says, but \<^verbatim>\<open>var\<close> (with \<^verbatim>\<open>ddof = 0\<close>) is the one-element array \<open>[1/2]\<close>, where
  the population variance of the two samples is \<open>1/4\<close> and the accumulator without
  covariances reports \<open>1/4\<close>. After the first sample alone \<^verbatim>\<open>var\<close> raises.
\<close>

theorem scalar_cov_var_differs_from_batch:
  "add_many (init 0 None True) [PyFloat 1, PyFloat 2] =
     (None, \<lparr>count = 2, ddof = 0, ret_cov = True, shape = None,
             acc_mean = Some (PyFloat (3 / 2)), acc_M2 = Some (NdArray [1, 1] [1])\<rparr>) \<and>
   mean (snd (add_many (init 0 None True) [PyFloat 1, PyFloat 2])) = Inr (Some (PyFloat (3 / 2))) \<and>
   var (snd (add_many (init 0 None True) [PyFloat 1, PyFloat 2])) = Inr (NdArray [1] [1 / 2]) \<and>
   batch_mean [1, 2] = 3 / 2 \<and>
   batch_var [1, 2] = 1 / 4 \<and>
   var (snd (add_many (init 0 None False) [PyFloat 1, PyFloat 2])) = Inr (PyFloat (1 / 4)) \<and>
   var (snd (add_many (init 0 None True) [PyFloat 1])) = Inl ValueError"
  by (simp add: add_def init_def initialize_def np_sub_def np_mul_def bind_err_def Let_def
      np_outer_def outer_data_def mean_def var_def batch_mean_def batch_var_def sum_sq_dev_def
      power2_eq_square)

section \<open>Adding to an accumulator that holds array data\<close>

lemma shaped_stateD:
  assumes "shaped_state a"
  obtains shp md qd where "shape a = Some shp" "acc_mean a = Some (NdArray [prod_list shp] md)"
    "length md = prod_list shp"
    "acc_M2 a = Some (NdArray (if ret_cov a then [prod_list shp, prod_list shp] else [prod_list shp]) qd)"
    "length qd = (if ret_cov a then prod_list shp * prod_list shp else prod_list shp)"
  using assms unfolding shaped_state_def
  by (auto split: option.splits pyval.splits if_splits)

lemma shaped_state_init: "shaped_state (init dd (Some shp) rc)"
  by (simp add: shaped_state_def init_def np_zeros_def Let_def)

text \<open>A first sample that is an array sets the same layout up.\<close>

lemma shaped_state_first_add:
  assumes "wf_val (NdArray s d)"
  shows "fst (add (init dd None rc) (NdArray s d)) = None \<and>
         shaped_state (snd (add (init dd None rc) (NdArray s d)))"
  using assms by (simp add: add_def init_def initialize_def shaped_state_def np_zeros_def Let_def)

lemma bshape_rev_same: "bshape_rev xs xs = Some xs"
  by (induction xs) simp_all

lemma broadcast_shapes_same: "broadcast_shapes s s = Some s"
  by (simp add: broadcast_shapes_def bshape_rev_same)

lemma broadcast_shapes_1d:
  "broadcast_shapes [v] [m] =
     (if v = m \<or> m = 1 then Some [v] else if v = 1 then Some [m] else None)"
  by (simp add: broadcast_shapes_def)

lemma broadcast_to_same: "broadcast_to s d s = d"
  by (simp add: broadcast_to_def)

lemma concat_replicate_single: "concat (replicate m [x]) = replicate m x"
  by (induction m) simp_all

lemma broadcast_to_one: "m \<noteq> Suc 0 \<Longrightarrow> broadcast_to [Suc 0] [x] [m] = replicate m x"
  by (simp add: broadcast_to_def concat_replicate_single)

lemma np_ravel_eq: "np_ravel v = NdArray [size_of v] (elems v)"
  by (cases v) simp_all

lemma length_elems: "length (elems v) = size_of v"
  by (cases v) simp_all

lemma length_outer_data: "length (outer_data xs ys) = length xs * length ys"
  by (simp add: outer_data_def length_concat comp_def sum_list_triv)

text \<open>A value with as many elements as the accumulator is taken, whatever its shape.\<close>

lemma add_shaped_same_size:
  assumes "shaped_state a" and "size_of v = acc_size a"
  shows "fst (add a v) = None \<and> shaped_state (snd (add a v)) \<and>
         count (snd (add a v)) = Suc (count a) \<and> shape (snd (add a v)) = shape a"
proof -
  from assms(1) obtain shp md qd where
    sh: "shape a = Some shp" and m: "acc_mean a = Some (NdArray [prod_list shp] md)"
    and lm: "length md = prod_list shp"
    and q: "acc_M2 a = Some (NdArray (if ret_cov a then [prod_list shp, prod_list shp] else [prod_list shp]) qd)"
    and lq: "length qd = (if ret_cov a then prod_list shp * prod_list shp else prod_list shp)"
    by (rule shaped_stateD)
  have sz: "size_of v = prod_list shp" using assms(2) sh by (simp add: acc_size_def)
  have le: "length (elems v) = prod_list shp" using sz by (simp add: length_elems)
  show ?thesis
  proof (cases "ret_cov a")
    case True
    then show ?thesis
      using sh m lm q lq sz le
      by (simp add: add_def np_ravel_eq np_sub_def np_mul_def bind_err_def Let_def
          broadcast_shapes_same broadcast_to_same np_outer_def length_outer_data shaped_state_def)
  next
    case False
    then show ?thesis
      using sh m lm q lq sz le
      by (simp add: add_def np_ravel_eq np_sub_def np_mul_def bind_err_def Let_def
          broadcast_shapes_same broadcast_to_same shaped_state_def)
  qed
qed

text \<open>A single element is broadcast to the size of the accumulator.\<close>

lemma add_shaped_size_one:
  assumes "shaped_state a" and "size_of v = 1"
  shows "fst (add a v) = None \<and> shaped_state (snd (add a v)) \<and>
         count (snd (add a v)) = Suc (count a) \<and> shape (snd (add a v)) = shape a"
proof (cases "acc_size a = 1")
  case True
  then show ?thesis using add_shaped_same_size[OF assms(1)] assms(2) by simp
next
  case False
  from assms(1) obtain shp md qd where
    sh: "shape a = Some shp" and m: "acc_mean a = Some (NdArray [prod_list shp] md)"
    and lm: "length md = prod_list shp"
    and q: "acc_M2 a = Some (NdArray (if ret_cov a then [prod_list shp, prod_list shp] else [prod_list shp]) qd)"
    and lq: "length qd = (if ret_cov a then prod_list shp * prod_list shp else prod_list shp)"
    by (rule shaped_stateD)
  have ne: "prod_list shp \<noteq> 1" using False sh by (simp add: acc_size_def)
  have ne': "1 \<noteq> prod_list shp" using ne by simp
  obtain x where ev: "elems v = [x]"
    using assms(2) length_elems[of v] by (cases "elems v") auto
  show ?thesis
  proof (cases "ret_cov a")
    case True
    then show ?thesis
      using sh m lm q lq assms(2) ev ne ne'
      by (simp add: add_def np_ravel_eq np_sub_def np_mul_def bind_err_def Let_def
          broadcast_shapes_same broadcast_shapes_1d broadcast_to_same broadcast_to_one
          np_outer_def length_outer_data shaped_state_def)
  next
    case False
    then show ?thesis
      using sh m lm q lq assms(2) ev ne ne'
      by (simp add: add_def np_ravel_eq np_sub_def np_mul_def bind_err_def Let_def
          broadcast_shapes_same broadcast_shapes_1d broadcast_to_same broadcast_to_one
          shaped_state_def)
  qed
qed

text \<open>
  Every other size makes the array arithmetic raise, after \<^verbatim>\<open>count\<close> was
  incremented and before any buffer is written.
\<close>

lemma add_shaped_mismatch:
  assumes "shaped_state a" and "size_of v \<noteq> acc_size a" and "size_of v \<noteq> 1"
  shows "add a v = (Some ValueError, a\<lparr>count := Suc (count a)\<rparr>)"
proof -
  from assms(1) obtain shp md qd where
    sh: "shape a = Some shp" and m: "acc_mean a = Some (NdArray [prod_list shp] md)"
    and lm: "length md = prod_list shp"
    and q: "acc_M2 a = Some (NdArray (if ret_cov a then [prod_list shp, prod_list shp] else [prod_list shp]) qd)"
    and lq: "length qd = (if ret_cov a then prod_list shp * prod_list shp else prod_list shp)"
    by (rule shaped_stateD)
  have ne: "size_of v \<noteq> prod_list shp" using assms(2) sh by (simp add: acc_size_def)
  have ne': "prod_list shp \<noteq> size_of v" using ne by simp
  show ?thesis
    using sh m ne ne' assms(3)
    by (simp add: add_def np_ravel_eq np_sub_def Let_def broadcast_shapes_1d)
qed

text \<open>The layout is kept by every call of \<^verbatim>\<open>add\<close>, also by one that raises.\<close>

lemma shaped_state_count_update: "shaped_state (a\<lparr>count := n\<rparr>) = shaped_state a"
  by (simp add: shaped_state_def split: option.splits pyval.splits)

lemma shaped_state_add:
  assumes "shaped_state a"
  shows "shaped_state (snd (add a v))"
proof (cases "size_of v = acc_size a \<or> size_of v = 1")
  case True
  then show ?thesis
    using add_shaped_same_size[OF assms, of v] add_shaped_size_one[OF assms, of v] by blast
next
  case False
  then have "add a v = (Some ValueError, a\<lparr>count := Suc (count a)\<rparr>)"
    using add_shaped_mismatch[OF assms, of v] by simp
  then show ?thesis using assms by (simp add: shaped_state_count_update)
qed

text \<open>
  Hence an accumulator that was given a shape, or whose first sample was an array, holds
  its data in this layout after any sequence of calls of \<^verbatim>\<open>add\<close>.
\<close>

theorem shaped_state_run_adds:
  assumes "shaped_state a"
  shows "shaped_state (run_adds a vs)"
proof (induction vs rule: rev_induct)
  case Nil
  then show ?case using assms by (simp add: run_adds_def)
next
  case (snoc v vs)
  then show ?case by (simp add: run_adds_def shaped_state_add)
qed

theorem shaped_state_run_adds_witness:
  "shaped_state (run_adds (init 0 (Some [2, 3]) False)
     [NdArray [3, 2] [1, 2, 3, 4, 5, 6], NdArray [2, 2] [1, 2, 3, 4], PyFloat 5])"
  by (rule shaped_state_run_adds[OF shaped_state_init])

text \<open>
  C4, as the specification states it: a value whose shape differs from the shape fixed
  at construction is refused. It fails on the code: an accumulator built with shape
  \<open>(2, 3)\<close> accepts a value of shape \<open>(3, 2)\<close>.
\<close>

theorem add_same_size_other_shape_accepted:
  "fst (add (init 0 (Some [2, 3]) False) (NdArray [3, 2] [1, 2, 3, 4, 5, 6])) = None"
  by (simp add: add_def init_def np_zeros_def np_sub_def np_mul_def bind_err_def Let_def
      broadcast_shapes_def broadcast_to_def numeral_eq_Suc)

text \<open>
  C4, amended. \<^verbatim>\<open>add\<close> has no check of the shape. On an accumulator that holds array
  data the value is flattened, and the call raises (numpy's \<^verbatim>\<open>ValueError\<close>) exactly
  when the number of elements of the value is neither the size of the accumulator nor 1;
  a value of another shape with the same number of elements is accepted.
\<close>

theorem add_shaped_outcome:
  assumes "shaped_state a"
  shows "fst (add a v) =
           (if size_of v = acc_size a \<or> size_of v = 1 then None else Some ValueError)"
proof (cases "size_of v = acc_size a")
  case True
  then show ?thesis using add_shaped_same_size[OF assms] by simp
next
  case False
  note ne = this
  show ?thesis
  proof (cases "size_of v = 1")
    case True
    then show ?thesis using add_shaped_size_one[OF assms] by simp
  next
    case False
    then show ?thesis using add_shaped_mismatch[OF assms ne] ne by simp
  qed
qed

theorem add_shaped_outcome_witness:
  "fst (add (init 0 (Some [2, 3]) False) (NdArray [2, 2] [1, 2, 3, 4])) = Some ValueError \<and>
   fst (add (init 0 (Some [2, 3]) False) (NdArray [6] [1, 2, 3, 4, 5, 6])) = None \<and>
   fst (add (init 0 (Some [2, 3]) False) (PyFloat 5)) = None"
proof -
  note s = shaped_state_init[of 0 "[2, 3]" False]
  have z: "acc_size (init 0 (Some [2, 3]) False) = 6" by (simp add: acc_size_def init_def)
  from add_shaped_outcome[OF s, of "NdArray [2, 2] [1, 2, 3, 4]"]
       add_shaped_outcome[OF s, of "NdArray [6] [1, 2, 3, 4, 5, 6]"]
       add_shaped_outcome[OF s, of "PyFloat 5"]
  show ?thesis by (simp add: z)
qed

text \<open>
  C5, as the specification states it: a failing \<^verbatim>\<open>add\<close> leaves \<^verbatim>\<open>count\<close>, the mean
  and \<^verbatim>\<open>M2\<close> as they were. It fails on the code: the call below raises and
  \<^verbatim>\<open>count\<close> has gone from 0 to 1.
\<close>

theorem add_failure_increments_count:
  "fst (add (init 0 (Some [2]) False) (NdArray [3] [1, 2, 3])) = Some ValueError \<and>
   count (init 0 (Some [2]) False) = 0 \<and>
   count (snd (add (init 0 (Some [2]) False) (NdArray [3] [1, 2, 3]))) = 1"
  by (simp add: add_def init_def np_zeros_def np_sub_def Let_def broadcast_shapes_def)

text \<open>
  C5, amended. When \<^verbatim>\<open>add\<close> fails on an accumulator that holds array data, the
  exception is numpy's \<^verbatim>\<open>ValueError\<close>, the running mean, \<^verbatim>\<open>M2\<close> and the shape are
  unchanged, and \<^verbatim>\<open>count\<close> has been incremented by one.
\<close>

theorem add_failure_keeps_buffers:
  assumes "shaped_state a" and "fst (add a v) = Some e"
  shows "e = ValueError \<and>
         count (snd (add a v)) = count a + 1 \<and>
         acc_mean (snd (add a v)) = acc_mean a \<and>
         acc_M2 (snd (add a v)) = acc_M2 a \<and>
         shape (snd (add a v)) = shape a"
proof -
  have ne: "size_of v \<noteq> acc_size a"
    using add_shaped_same_size[OF assms(1), of v] assms(2) by auto
  have n1: "size_of v \<noteq> 1"
    using add_shaped_size_one[OF assms(1), of v] assms(2) by auto
  from add_shaped_mismatch[OF assms(1) ne n1] assms(2) show ?thesis by simp
qed

theorem add_failure_keeps_buffers_witness:
  "count (snd (add (init 0 (Some [2]) True) (NdArray [3] [1, 2, 3]))) = 1 \<and>
   acc_mean (snd (add (init 0 (Some [2]) True) (NdArray [3] [1, 2, 3]))) = Some (NdArray [2] [0, 0]) \<and>
   acc_M2 (snd (add (init 0 (Some [2]) True) (NdArray [3] [1, 2, 3]))) = Some (NdArray [2, 2] [0, 0, 0, 0])"
proof -
  note s = shaped_state_init[of 0 "[2]" True]
  have f: "fst (add (init 0 (Some [2]) True) (NdArray [3] [1, 2, 3])) = Some ValueError"
    by (simp add: add_def init_def np_zeros_def np_sub_def Let_def broadcast_shapes_def)
  from add_failure_keeps_buffers[OF s f] show ?thesis
    by (simp add: init_def np_zeros_def numeral_eq_Suc)
qed

text \<open>
  The amended C5 is about accumulators that hold array data. A scalar accumulator that
  tracks covariances is not atomic even in its mean: after two scalar samples
  \<^verbatim>\<open>_M2\<close> is a \<open>1 \<times> 1\<close> array, and a sample of three elements then replaces the
  mean before the update of \<^verbatim>\<open>_M2\<close> raises.
\<close>

lemma add_failure_scalar_cov_changes_mean:
  "add_many (init 0 None True) [PyFloat 1, PyFloat 2] =
     (None, \<lparr>count = 2, ddof = 0, ret_cov = True, shape = None,
             acc_mean = Some (PyFloat (3 / 2)), acc_M2 = Some (NdArray [1, 1] [1])\<rparr>) \<and>
   add \<lparr>count = 2, ddof = 0, ret_cov = True, shape = None,
        acc_mean = Some (PyFloat (3 / 2)), acc_M2 = Some (NdArray [1, 1] [1])\<rparr>
       (NdArray [3] [1, 2, 3]) =
     (Some ValueError,
      \<lparr>count = 3, ddof = 0, ret_cov = True, shape = None,
       acc_mean = Some (NdArray [3] [4 / 3, 5 / 3, 2]), acc_M2 = Some (NdArray [1, 1] [1])\<rparr>)"
  by (simp add: add_def init_def initialize_def np_sub_def bind_err_def Let_def
      broadcast_shapes_def broadcast_to_def np_outer_def outer_data_def numeral_eq_Suc)

section \<open>The covariance update\<close>

text \<open>
  The update of \<^verbatim>\<open>_M2\<close> that \<^verbatim>\<open>add\<close> performs when covariances are tracked, for a
  sample with as many elements as the accumulator: with \<open>delta\<close> the sample minus the
  mean before the call and \<open>n\<close> the count after it, every entry of \<^verbatim>\<open>_M2\<close> grows by
  \<open>(n - 1) * outer(delta, delta) - M2 / n\<close>. The outer product is not divided by \<open>n\<close>.
\<close>

theorem add_cov_update:
  assumes "shaped_state a" and "ret_cov a" and "size_of v = acc_size a"
    and "acc_mean a = Some (NdArray ms md)" and "acc_M2 a = Some (NdArray qs qd)"
  shows "acc_M2 (snd (add a v)) =
     Some (NdArray qs
       (map2 (\<lambda>x y. x + y) qd
          (map2 (\<lambda>x y. x - y)
             (map (\<lambda>x. real (count a) * x)
                (outer_data (map2 (\<lambda>x y. x - y) (elems v) md) (map2 (\<lambda>x y. x - y) (elems v) md)))
             (map (\<lambda>x. x / real (Suc (count a))) qd))))"
proof -
  from assms(1) obtain shp md' qd' where
    sh: "shape a = Some shp" and m: "acc_mean a = Some (NdArray [prod_list shp] md')"
    and lm: "length md' = prod_list shp"
    and q: "acc_M2 a = Some (NdArray (if ret_cov a then [prod_list shp, prod_list shp] else [prod_list shp]) qd')"
    and lq: "length qd' = (if ret_cov a then prod_list shp * prod_list shp else prod_list shp)"
    by (rule shaped_stateD)
  have e: "md' = md" "ms = [prod_list shp]" "qd' = qd" "qs = [prod_list shp, prod_list shp]"
    using m q assms(2,4,5) by simp_all
  have sz: "size_of v = prod_list shp" using assms(3) sh by (simp add: acc_size_def)
  have le: "length (elems v) = prod_list shp" using sz by (simp add: length_elems)
  show ?thesis
    using sh assms(2,4,5) e lm lq sz le
    by (simp add: add_def np_ravel_eq np_sub_def bind_err_def Let_def
        broadcast_shapes_same broadcast_to_same np_outer_def length_outer_data)
qed

theorem add_cov_update_witness:
  "acc_M2 (snd (add (snd (add (init 0 (Some [2]) True) (NdArray [2] [1, 2]))) (NdArray [2] [2, 4])))
     = Some (NdArray [2, 2] [1, 2, 2, 4])"
proof -
  let ?a1 = "snd (add (init 0 (Some [2]) True) (NdArray [2] [1, 2]))"
  have s: "shaped_state ?a1" by (rule shaped_state_add[OF shaped_state_init])
  have eq: "?a1 = \<lparr>count = 1, ddof = 0, ret_cov = True, shape = Some [2],
                   acc_mean = Some (NdArray [2] [1, 2]), acc_M2 = Some (NdArray [2, 2] [0, 0, 0, 0])\<rparr>"
    by (simp add: add_def init_def np_zeros_def np_sub_def bind_err_def Let_def
        broadcast_shapes_def broadcast_to_def np_outer_def outer_data_def numeral_eq_Suc)
  have r: "ret_cov ?a1" and z: "size_of (NdArray [2] [2, 4]) = acc_size ?a1"
    and m: "acc_mean ?a1 = Some (NdArray [2] [1, 2])"
    and q: "acc_M2 ?a1 = Some (NdArray [2, 2] [0, 0, 0, 0])" and c: "count ?a1 = 1"
    unfolding eq by (simp_all add: acc_size_def)
  from add_cov_update[OF s r z m q] show ?thesis
    by (simp add: c outer_data_def)
qed

text \<open>
  C2. The specification's update divides the outer product by \<^verbatim>\<open>count\<close>; the
  statement in \<^verbatim>\<open>add\<close> is
  \<^verbatim>\<open>self._M2 += ((self.count - 1) * np.outer(delta, delta) - self._M2 / self.count)\<close>,
  which does not. After the samples \<open>[1, 2]\<close> and \<open>[2, 4]\<close> the code holds
  \<open>M2 = [[1, 2], [2, 4]]\<close> where the specification's update gives half of it. After
  \<open>[3, 6]\<close> the reported covariance is \<open>31/18\<close> times \<open>[[1, 2], [2, 4]]\<close>, so it is
  proportional to that matrix, but its diagonal is not the variance that the same
  class reports without covariance tracking, \<open>[2/3, 8/3]\<close>.
\<close>

theorem cov_update_differs_from_spec:
  "acc_M2 (snd (add_many (init 0 None True) [NdArray [2] [1, 2], NdArray [2] [2, 4]]))
     = Some (NdArray [2, 2] [1, 2, 2, 4]) \<and>
   spec_cov_update 2 (NdArray [2] [1, 2]) (NdArray [2, 2] [0, 0, 0, 0])
     = Inr (NdArray [2, 2] [1 / 2, 1, 1, 2]) \<and>
   cov (snd (add_many (init 0 None True) [NdArray [2] [1, 2], NdArray [2] [2, 4], NdArray [2] [3, 6]]))
     = Inr (NdArray [2, 2] [31 / 18, 31 / 9, 31 / 9, 62 / 9]) \<and>
   var (snd (add_many (init 0 None True) [NdArray [2] [1, 2], NdArray [2] [2, 4], NdArray [2] [3, 6]]))
     = Inr (NdArray [2] [31 / 18, 62 / 9]) \<and>
   var (snd (add_many (init 0 None False) [NdArray [2] [1, 2], NdArray [2] [2, 4], NdArray [2] [3, 6]]))
     = Inr (NdArray [2] [2 / 3, 8 / 3])"
  by (simp add: add_def init_def initialize_def np_zeros_def np_sub_def np_mul_def bind_err_def
      Let_def broadcast_shapes_def broadcast_to_def np_outer_def outer_data_def
      spec_cov_update_def cov_def var_def numeral_eq_Suc)

section \<open>The accessors\<close>

text \<open>
  On an empty sequence \<^verbatim>\<open>mean_std_online\<close> raises for every \<^verbatim>\<open>ddof\<close> that is not
  negative, and for no \<^verbatim>\<open>ddof\<close> and no shape does it return a pair of two
  \<^verbatim>\<open>nan\<close>.
\<close>

lemma mean_std_online_empty_nonneg:
  "0 \<le> dd \<Longrightarrow> mean_std_online [] dd shp = Inl RuntimeError"
  by (cases shp)
     (simp_all add: mean_std_online_def init_def mean_def std_def var_def bind_err_def
        np_zeros_def Let_def)

lemma mean_std_online_empty_never_nan_pair:
  "mean_std_online [] dd shp \<noteq> Inr (OutFloat NaN, OutFloat NaN)"
proof (cases "0 \<le> dd")
  case True
  then show ?thesis by (simp add: mean_std_online_empty_nonneg)
next
  case False
  then show ?thesis
    by (cases shp)
       (simp_all add: mean_std_online_def init_def mean_def std_def var_def bind_err_def
          np_zeros_def Let_def)
qed

text \<open>
  C3. \<^verbatim>\<open>mean_std_online\<close> on an empty sequence does not return a pair: \<^verbatim>\<open>var\<close>
  raises \<^verbatim>\<open>RuntimeError\<close>, and the handler around \<^verbatim>\<open>acc.std\<close> catches
  \<^verbatim>\<open>ValueError\<close> only.
\<close>

theorem mean_std_online_empty_raises:
  "mean_std_online [] 0 None = Inl RuntimeError \<and>
   mean_std_online [] 1 (Some [2]) = Inl RuntimeError"
  by (simp add: mean_std_online_def init_def mean_def std_def var_def bind_err_def np_zeros_def)

text \<open>
  C6. A scalar sample makes \<^verbatim>\<open>_initialize\<close> set \<^verbatim>\<open>_M2 = 0\<close> also when covariances
  are tracked. With one sample and \<^verbatim>\<open>ddof = 0\<close> the count exceeds \<^verbatim>\<open>ddof\<close>, yet
  \<^verbatim>\<open>var\<close> returns nothing: \<^verbatim>\<open>np.diag(0)\<close> raises \<^verbatim>\<open>ValueError\<close>.
\<close>

theorem var_scalar_cov_value_error:
  "fst (add (init 0 None True) (PyFloat 1)) = None \<and>
   count (snd (add (init 0 None True) (PyFloat 1))) = 1 \<and>
   ddof (snd (add (init 0 None True) (PyFloat 1))) = 0 \<and>
   var (snd (add (init 0 None True) (PyFloat 1))) = Inl ValueError"
  by (simp add: init_def add_def initialize_def var_def bind_err_def)

text \<open>
  On an accumulator that holds array data \<^verbatim>\<open>var\<close> does what C6 says: it raises the
  insufficient-samples error exactly when \<^verbatim>\<open>count <= ddof\<close>, and otherwise returns
  \<^verbatim>\<open>_M2\<close>, or its diagonal when covariances are tracked, divided by
  \<^verbatim>\<open>count - ddof\<close> and reshaped.
\<close>

theorem var_shaped:
  assumes "shaped_state a" and "shape a = Some shp" and "acc_M2 a = Some (NdArray qs qd)"
  shows "var a =
     (if int (count a) \<le> ddof a then Inl RuntimeError
      else Inr (NdArray shp
             (map (\<lambda>x. x / real_of_int (int (count a) - ddof a))
                (if ret_cov a then map (\<lambda>i. qd ! (i * prod_list shp + i)) [0..<prod_list shp]
                 else qd))))"
proof -
  from assms(1) obtain shp' md qd' where
    sh: "shape a = Some shp'"
    and q: "acc_M2 a = Some (NdArray (if ret_cov a then [prod_list shp', prod_list shp'] else [prod_list shp']) qd')"
    and lq: "length qd' = (if ret_cov a then prod_list shp' * prod_list shp' else prod_list shp')"
    by (rule shaped_stateD)
  have e1: "shp' = shp" using sh assms(2) by simp
  have e2: "qd' = qd" and e3: "qs = (if ret_cov a then [prod_list shp, prod_list shp] else [prod_list shp])"
    using q assms(3) e1 by simp_all
  show ?thesis
  proof (cases "ret_cov a")
    case True
    then show ?thesis
      using assms(2,3) e3 by (simp add: var_def bind_err_def)
  next
    case False
    then show ?thesis
      using assms(2,3) e3 lq e1 e2 by (simp add: var_def bind_err_def)
  qed
qed

theorem var_shaped_witness:
  "var (init 0 (Some [2]) True) = Inl RuntimeError \<and>
   var (init (- 1) (Some [2]) True) = Inr (NdArray [2] [0, 0]) \<and>
   var (init (- 1) (Some [2, 3]) False) = Inr (NdArray [2, 3] [0, 0, 0, 0, 0, 0])"
proof -
  have a: "var (init 0 (Some [2]) True) = Inl RuntimeError"
    using var_shaped[OF shaped_state_init, of 0 "[2]" True "[2]" "[2, 2]" "[0, 0, 0, 0]"]
    by (simp add: init_def np_zeros_def numeral_eq_Suc)
  have b: "var (init (- 1) (Some [2]) True) = Inr (NdArray [2] [0, 0])"
    using var_shaped[OF shaped_state_init, of "- 1" "[2]" True "[2]" "[2, 2]" "[0, 0, 0, 0]"]
    by (simp add: init_def np_zeros_def numeral_eq_Suc)
  have c: "var (init (- 1) (Some [2, 3]) False) = Inr (NdArray [2, 3] [0, 0, 0, 0, 0, 0])"
    using var_shaped[OF shaped_state_init, of "- 1" "[2, 3]" False "[2, 3]" "[6]" "[0, 0, 0, 0, 0, 0]"]
    by (simp add: init_def np_zeros_def numeral_eq_Suc)
  from a b c show ?thesis by blast
qed

text \<open>
  C7, as the specification states it: without covariance tracking \<^verbatim>\<open>cov\<close> fails with
  the unsupported-operation error (\<^verbatim>\<open>ValueError\<close>) whatever the count. It fails on
  the code: on a fresh accumulator the error is \<^verbatim>\<open>RuntimeError\<close>.
\<close>

theorem cov_fresh_raises_runtime_error:
  "\<not> ret_cov (init 0 None False) \<and> cov (init 0 None False) = Inl RuntimeError"
  by (simp add: cov_def init_def)

text \<open>
  C7, amended. Without covariance tracking \<^verbatim>\<open>cov\<close> always fails; the count is
  tested first, so the error is the insufficient-samples error (\<^verbatim>\<open>RuntimeError\<close>)
  when \<^verbatim>\<open>count <= ddof\<close> and the unsupported-operation error (\<^verbatim>\<open>ValueError\<close>)
  otherwise.
\<close>

theorem cov_untracked_error:
  assumes "\<not> ret_cov a"
  shows "cov a = Inl (if int (count a) \<le> ddof a then RuntimeError else ValueError)"
  using assms by (simp add: cov_def)

theorem cov_untracked_error_witness:
  "cov (init 1 None False) = Inl RuntimeError \<and>
   cov (snd (add (init 0 None False) (PyFloat 5))) = Inl ValueError"
proof -
  have a: "\<not> ret_cov (init 1 None False)" by (simp add: init_def)
  have b: "\<not> ret_cov (snd (add (init 0 None False) (PyFloat 5)))"
    by (simp add: init_def add_def initialize_def)
  from cov_untracked_error[OF a] cov_untracked_error[OF b] show ?thesis
    by (simp add: init_def add_def initialize_def)
qed

lemma count_add_pos: "0 < count (snd (add a v))"
proof (cases "acc_mean a")
  case None
  then show ?thesis by (simp add: add_def initialize_def Let_def split: pyval.splits)
next
  case (Some m)
  then show ?thesis
    by (simp add: add_def Let_def split: sum.splits option.splits)
qed

lemma run_adds_snoc: "run_adds a (vs @ [v]) = snd (add (run_adds a vs) v)"
  by (simp add: run_adds_def)

lemma run_adds_count_zero:
  assumes "count (run_adds a vs) = 0"
  shows "vs = []"
proof (cases vs rule: rev_cases)
  case Nil
  then show ?thesis by simp
next
  case (snoc ws w)
  with assms count_add_pos[of "run_adds a ws" w] show ?thesis
    by (simp add: run_adds_snoc)
qed

text \<open>
  C10. An accumulator constructed with a shape, after any calls of \<^verbatim>\<open>add\<close>: while
  its count is 0 the mean neither raises nor is \<^verbatim>\<open>None\<close>; it is the array of zeros
  of the given shape.
\<close>

theorem mean_before_first_add:
  assumes "count (run_adds (init dd (Some shp) rc) vs) = 0"
  shows "mean (run_adds (init dd (Some shp) rc) vs) =
           Inr (Some (NdArray shp (replicate (prod_list shp) 0)))"
proof -
  have "vs = []" using assms by (rule run_adds_count_zero)
  then show ?thesis
    by (simp add: run_adds_def init_def mean_def np_zeros_def bind_err_def Let_def)
qed

theorem mean_before_first_add_witness:
  "count (run_adds (init 0 (Some [2, 3]) False) []) = 0 \<and>
   mean (run_adds (init 0 (Some [2, 3]) False) []) = Inr (Some (NdArray [2, 3] [0, 0, 0, 0, 0, 0]))"
proof -
  have c: "count (run_adds (init 0 (Some [2, 3]) False) []) = 0"
    by (simp add: run_adds_def init_def)
  from mean_before_first_add[OF c] c show ?thesis
    by (simp add: numeral_eq_Suc)
qed

section \<open>The log-normal parameters\<close>

text \<open>
  C9. For a positive mean and a variance that is not negative the \<^verbatim>\<open>'scipy'\<close>
  convention returns \<open>mu = mean\<^sup>2 / sqrt (mean\<^sup>2 + variance)\<close> and
  \<open>sigma = sqrt (ln (1 + variance / mean\<^sup>2))\<close>, both finite; for mean 1 and variance 0
  these are 1 and 0.
\<close>

theorem lognorm_scipy:
  assumes "0 < mean_v" and "0 \<le> variance"
  shows "lognorm_mean_var_to_mu_sigma mean_v variance ''scipy'' =
           Inr (Finite (mean_v\<^sup>2 / sqrt (mean_v\<^sup>2 + variance)),
                Finite (sqrt (ln (1 + variance / mean_v\<^sup>2))))"
proof -
  have m2: "0 < mean_v\<^sup>2" using assms(1) by simp
  have s: "0 < mean_v\<^sup>2 + variance" using m2 assms(2) by linarith
  have q: "0 \<le> variance / mean_v\<^sup>2" using m2 assms(2) by simp
  have l: "0 \<le> ln (1 + variance / mean_v\<^sup>2)" using q by simp
  have t: "0 < 1 + variance / mean_v\<^sup>2" using q by linarith
  have sq: "sqrt (mean_v\<^sup>2 + variance) \<noteq> 0" using s by simp
  have a: "np_sqrt_f (Finite (mean_v\<^sup>2 + variance)) = Finite (sqrt (mean_v\<^sup>2 + variance))"
    using s by (simp add: sqrt_elem_def)
  have b: "np_log_f (Finite (1 + variance / mean_v\<^sup>2)) = Finite (ln (1 + variance / mean_v\<^sup>2))"
    using t by simp
  have c: "np_sqrt_f (Finite (ln (1 + variance / mean_v\<^sup>2))) = Finite (sqrt (ln (1 + variance / mean_v\<^sup>2)))"
    using l by (simp add: sqrt_elem_def)
  have d: "np_div_f (mean_v\<^sup>2) (Finite (sqrt (mean_v\<^sup>2 + variance)))
           = Finite (mean_v\<^sup>2 / sqrt (mean_v\<^sup>2 + variance))"
    using sq by simp
  have ne: "mean_v\<^sup>2 \<noteq> 0" using m2 by simp
  show ?thesis
    unfolding lognorm_mean_var_to_mu_sigma_def Let_def a b c d using ne by simp
qed

theorem lognorm_scipy_witness:
  "lognorm_mean_var_to_mu_sigma 1 0 ''scipy'' = Inr (Finite 1, Finite 0)"
proof -
  have "(0::real) < 1" and "(0::real) \<le> 0" by simp_all
  from lognorm_scipy[OF this] show ?thesis by simp
qed

section \<open>The indices of the series in \<^verbatim>\<open>sampling_distribution_cv\<close>\<close>

lemma py_range_set:
  "0 < step \<Longrightarrow> set (py_range i stop step) = {k. i \<le> k \<and> k < stop \<and> (k - i) mod step = 0}"
proof (induction i stop step rule: py_range.induct)
  case (1 i stop step)
  show ?case
  proof (cases "i < stop")
    case False
    then show ?thesis using 1(2) by (subst py_range.simps) auto
  next
    case True
    have IH: "set (py_range (i + step) stop step) =
        {k. i + step \<le> k \<and> k < stop \<and> (k - (i + step)) mod step = 0}"
      using 1 True by simp
    have "{k. i \<le> k \<and> k < stop \<and> (k - i) mod step = 0} =
          insert i {k. i + step \<le> k \<and> k < stop \<and> (k - (i + step)) mod step = 0}"
      (is "?L = ?R")
    proof
      show "?L \<subseteq> ?R"
      proof
        fix k assume "k \<in> ?L"
        then have k: "i \<le> k" "k < stop" "(k - i) mod step = 0" by auto
        show "k \<in> ?R"
        proof (cases "k = i")
          case True then show ?thesis by simp
        next
          case False
          with k have pos: "0 < k - i" by simp
          from k(3) have "step dvd (k - i)" by (simp add: dvd_eq_mod_eq_0)
          then have "step \<le> k - i" using pos 1(2) by (simp add: zdvd_imp_le)
          moreover have "(k - (i + step)) mod step = 0"
            using k(3) by (metis diff_diff_eq minus_mod_self2)
          ultimately show ?thesis using k by simp
        qed
      qed
      show "?R \<subseteq> ?L"
      proof
        fix k assume "k \<in> ?R"
        then consider "k = i" | "i + step \<le> k" "k < stop" "(k - (i + step)) mod step = 0" by auto
        then show "k \<in> ?L"
        proof cases
          case 1 then show ?thesis using True by simp
        next
          case 2
          have "(k - i) mod step = 0"
            using 2(3) by (metis diff_diff_eq minus_mod_self2)
          then show ?thesis using 2 1(2) by simp
        qed
      qed
    qed
    then show ?thesis using IH True 1(2) by (subst py_range.simps) simp
  qed
qed

lemma py_range_distinct: "0 < step \<Longrightarrow> distinct (py_range i stop step)"
proof (induction i stop step rule: py_range.induct)
  case (1 i stop step)
  show ?case
  proof (cases "i < stop")
    case False
    then show ?thesis by (subst py_range.simps) simp
  next
    case True
    have "i \<notin> set (py_range (i + step) stop step)"
      using 1(2) by (simp add: py_range_set)
    then show ?thesis using 1 True by (subst py_range.simps) simp
  qed
qed

text \<open>
  C8, as the specification states it: no index larger than \<open>n - 2\<close> is summed. It
  fails on the code: for \<open>n = 3\<close> the generator runs over \<^verbatim>\<open>range(0, 3, 2)\<close>, the
  indices 0 and 2.
\<close>

theorem cv_indices_3: "py_range (1 - 3 mod 2) 3 2 = [0, 2] \<and> \<not> (2 \<le> (3::int) - 2)"
  by (simp add: py_range.simps[of 0] py_range.simps[of 2] py_range.simps[of 4])

lemma py_range_step2_set: "set (py_range lo n 2) = {i. lo \<le> i \<and> i \<le> n - 1 \<and> even (i - lo)}"
  by (auto simp: py_range_set even_iff_mod_2_eq_zero)

lemma cv_start: "1 - n mod 2 = (if even n then 1 else (0::int))"
  by (cases "even n") (simp_all add: even_iff_mod_2_eq_zero odd_iff_mod_2_eq_one)

text \<open>
  C8, amended. For \<open>n \<ge> 2\<close> the series is summed exactly once over each of the
  indices \<open>1 - n mod 2\<close>, \<open>1 - n mod 2 + 2\<close>, ... up to and including \<open>n - 1\<close>, in
  steps of 2; \<open>n - 2\<close> is not among them.
\<close>

theorem cv_series_indices:
  assumes "2 \<le> n"
  shows "set (py_range (1 - n mod 2) n 2) =
           {i. 1 - n mod 2 \<le> i \<and> i \<le> n - 1 \<and> even (i - (1 - n mod 2))} \<and>
         distinct (py_range (1 - n mod 2) n 2) \<and>
         n - 1 \<in> set (py_range (1 - n mod 2) n 2) \<and>
         n - 2 \<notin> set (py_range (1 - n mod 2) n 2) \<and>
         cv_series gamma factorial x2 cv n =
           (\<Sum>i \<in> {i. 1 - n mod 2 \<le> i \<and> i \<le> n - 1 \<and> even (i - (1 - n mod 2))}.
              cv_term gamma factorial x2 cv n i)"
proof -
  let ?lo = "1 - n mod 2"
  let ?r = "py_range ?lo n 2"
  let ?S = "{i. ?lo \<le> i \<and> i \<le> n - 1 \<and> even (i - ?lo)}"
  have s: "set ?r = ?S" by (rule py_range_step2_set)
  have d: "distinct ?r" by (simp add: py_range_distinct)
  have a: "n - 1 \<in> ?S"
  proof (cases "even n")
    case True
    then show ?thesis using assms by (simp add: cv_start)
  next
    case False
    then show ?thesis using assms by (simp add: cv_start)
  qed
  have b: "n - 2 \<notin> ?S"
  proof (cases "even n")
    case True
    then show ?thesis by (simp add: cv_start)
  next
    case False
    then show ?thesis by (simp add: cv_start)
  qed
  have "cv_series gamma factorial x2 cv n = (\<Sum>i \<in> set ?r. cv_term gamma factorial x2 cv n i)"
    unfolding cv_series_def using d by (simp add: sum_list_distinct_conv_sum_set)
  then have c: "cv_series gamma factorial x2 cv n = (\<Sum>i \<in> ?S. cv_term gamma factorial x2 cv n i)"
    unfolding s .
  from a b have a': "n - 1 \<in> set ?r" and b': "n - 2 \<notin> set ?r" unfolding s by blast+
  from s d a' b' c show ?thesis by blast
qed

theorem cv_series_indices_witness:
  "(2::int) \<in> set (py_range (1 - 3 mod 2) 3 2) \<and> (1::int) \<notin> set (py_range (1 - 3 mod 2) 3 2) \<and>
   distinct (py_range (1 - 3 mod 2) 3 2)"
proof -
  have "(2::int) \<le> 3" by simp
  from cv_series_indices[OF this]
  have "3 - 1 \<in> set (py_range (1 - 3 mod 2) 3 2)" and "3 - 2 \<notin> set (py_range (1 - 3 mod 2) 3 2)"
    and "distinct (py_range (1 - 3 mod 2) 3 2)" by blast+
  then show ?thesis by simp
qed

end
